theory Spec2Isabelle
  imports Main "HOL-Library.Sublist"
begin

section \<open>Strings as Python sees them\<close>

text \<open>
  Source: \<^verbatim>\<open>mythril/ethereum/util.py\<close>. A Python \<^verbatim>\<open>str\<close> is modelled as a
  \<^typ>\<open>string\<close>; every character the code inspects is ASCII.
\<close>

definition nl :: char where "nl = CHR 0x0A"
definition tab :: char where "tab = CHR 0x09"
definition cr :: char where "cr = CHR 0x0D"
definition squote :: char where "squote = CHR 0x27"
definition dquote :: char where "dquote = CHR 0x22"
definition backslash :: char where "backslash = CHR 0x5C"

text \<open>\<^verbatim>\<open>s.find(sub)\<close>: index of the leftmost occurrence, \<^verbatim>\<open>-1\<close> as \<open>None\<close>.\<close>

fun find_sub :: "string \<Rightarrow> string \<Rightarrow> nat option" where
  "find_sub sub [] = (if sub = [] then Some 0 else None)"
| "find_sub sub (c # cs) =
     (if prefix sub (c # cs) then Some 0 else map_option Suc (find_sub sub cs))"

text \<open>\<^verbatim>\<open>s.find(sub, start)\<close> for \<open>start \<le> len(s)\<close>.\<close>

definition find_at :: "string \<Rightarrow> string \<Rightarrow> nat \<Rightarrow> nat option" where
  "find_at sub s start = map_option (\<lambda>i. i + start) (find_sub sub (drop start s))"

text \<open>\<^verbatim>\<open>sub in s\<close>.\<close>

definition contains :: "string \<Rightarrow> string \<Rightarrow> bool" where
  "contains sub s = (find_sub sub s \<noteq> None)"

text \<open>\<^verbatim>\<open>sep.join(xs)\<close> and \<^verbatim>\<open>s.split(c)\<close> for a one-character separator.\<close>

fun join :: "string \<Rightarrow> string list \<Rightarrow> string" where
  "join sep [] = []"
| "join sep [x] = x"
| "join sep (x # y # ys) = x @ sep @ join sep (y # ys)"

fun split :: "char \<Rightarrow> string \<Rightarrow> string list" where
  "split c [] = [[]]"
| "split c (x # xs) =
     (if x = c then [] # split c xs
      else (case split c xs of [] \<Rightarrow> [[x]] | l # ls \<Rightarrow> (x # l) # ls))"

section \<open>The lexical stripper: \<^verbatim>\<open>remove_comments_strings\<close>\<close>

text \<open>
  \<^verbatim>\<open>VOID_START = re.compile("//|/\\*|\"|'")\<close>; \<^verbatim>\<open>VOID_START.search(todo)\<close> gives the
  leftmost position at which one of the four alternatives matches, the alternatives tried
  in the written order. The result is \<open>(m.start(), m[0])\<close>.
\<close>

fun VOID_START_search :: "string \<Rightarrow> (nat \<times> string) option" where
  "VOID_START_search [] = None"
| "VOID_START_search (c # cs) =
     (if prefix ''//'' (c # cs) then Some (0, ''//'')
      else if prefix ''/*'' (c # cs) then Some (0, ''/*'')
      else if c = dquote then Some (0, [dquote])
      else if c = squote then Some (0, [squote])
      else map_option (\<lambda>(i, m). (Suc i, m)) (VOID_START_search cs))"

text \<open>
  \<^verbatim>\<open>QUOTE_END = re.compile("(?<!\\\\)'")\<close> and \<^verbatim>\<open>DQUOTE_END\<close>: the leftmost quote \<open>q\<close>
  that is not preceded by a backslash. The search runs on a fresh slice, so the first
  character has no predecessor. The result is \<open>m2.end()\<close>; \<open>prev\<close> is the character
  before the current position, if any.
\<close>

fun quote_end_from :: "char \<Rightarrow> char option \<Rightarrow> string \<Rightarrow> nat option" where
  "quote_end_from q prev [] = None"
| "quote_end_from q prev (c # cs) =
     (if c = q \<and> prev \<noteq> Some backslash then Some 1
      else map_option Suc (quote_end_from q (Some c) cs))"

definition QUOTE_END_search :: "string \<Rightarrow> nat option" where
  "QUOTE_END_search s = quote_end_from squote None s"

definition DQUOTE_END_search :: "string \<Rightarrow> nat option" where
  "DQUOTE_END_search s = quote_end_from dquote None s"

lemma find_sub_bound: "find_sub sub s = Some i \<Longrightarrow> i + length sub \<le> length s"
proof (induction s arbitrary: i)
  case Nil
  then show ?case by (simp split: if_splits)
next
  case (Cons c cs)
  show ?case
  proof (cases "prefix sub (c # cs)")
    case True
    with Cons.prems have "i = 0" by simp
    with prefix_length_le [OF True] show ?thesis by simp
  next
    case False
    with Cons.prems obtain j where "find_sub sub cs = Some j" "i = Suc j" by auto
    with Cons.IH show ?thesis by fastforce
  qed
qed

lemma find_at_bound:
  "find_at sub s start = Some e \<Longrightarrow> start \<le> e \<and> (start \<le> length s \<longrightarrow> e + length sub \<le> length s)"
  unfolding find_at_def using find_sub_bound [of sub "drop start s"] by auto

lemma VOID_START_search_bound:
  "VOID_START_search s = Some (st, m) \<Longrightarrow> Suc 0 \<le> length m \<and> st + length m \<le> length s"
proof (induction s arbitrary: st)
  case Nil
  then show ?case by simp
next
  case (Cons c cs)
  consider (a) "prefix ''//'' (c # cs)"
    | (b) "\<not> prefix ''//'' (c # cs)" "prefix ''/*'' (c # cs)"
    | (q) "\<not> prefix ''//'' (c # cs)" "\<not> prefix ''/*'' (c # cs)" "c = dquote \<or> c = squote"
    | (r) "\<not> prefix ''//'' (c # cs)" "\<not> prefix ''/*'' (c # cs)" "c \<noteq> dquote" "c \<noteq> squote"
    by blast
  then show ?case
  proof cases
    case a
    have "VOID_START_search (c # cs) = Some (0, ''//'')"
      by (simp only: VOID_START_search.simps a if_True)
    with Cons.prems have "st = 0" "m = ''//''" by simp_all
    with prefix_length_le [OF a] show ?thesis by simp
  next
    case b
    have "VOID_START_search (c # cs) = Some (0, ''/*'')"
      by (simp only: VOID_START_search.simps b if_True if_False)
    with Cons.prems have "st = 0" "m = ''/*''" by simp_all
    with prefix_length_le [OF b(2)] show ?thesis by simp
  next
    case q
    have "VOID_START_search (c # cs) = Some (0, [c])"
      apply (simp only: VOID_START_search.simps q(1,2) if_False)
      using q(3) by (auto simp add: dquote_def squote_def)
    with Cons.prems have "st = 0" "length m = 1" by auto
    then show ?thesis by simp
  next
    case r
    have eq: "VOID_START_search (c # cs) = map_option (\<lambda>(i, m). (Suc i, m)) (VOID_START_search cs)"
      by (simp only: VOID_START_search.simps r if_False)
    from Cons.prems [unfolded eq]
    obtain i where "VOID_START_search cs = Some (i, m)" "st = Suc i"
      by (cases "VOID_START_search cs") auto
    with Cons.IH [of i] show ?thesis by simp
  qed
qed

text \<open>
  The loop of \<^verbatim>\<open>remove_comments_strings\<close>, with the two variables \<^verbatim>\<open>todo\<close> and
  \<^verbatim>\<open>done\<close> (here \<open>dn\<close>) as arguments; a \<^verbatim>\<open>break\<close> returns \<open>dn\<close>.
\<close>

function remove_loop :: "string \<Rightarrow> string \<Rightarrow> string" where
  "remove_loop todo dn =
     (case VOID_START_search todo of
        None \<Rightarrow> dn @ todo
      | Some (st, m) \<Rightarrow>
          (let dn1 = dn @ take st todo; e = st + length m in
           if m = ''//'' then
             (case find_at [nl] todo e of
                None \<Rightarrow> remove_loop [] dn1
              | Some end \<Rightarrow> remove_loop (drop end todo) dn1)
           else if m = ''/*'' then
             (case find_at ''*/'' todo e of
                None \<Rightarrow> remove_loop [] (dn1 @ '' '')
              | Some end \<Rightarrow> remove_loop (drop (end + 2) todo) (dn1 @ '' ''))
           else
             (case (if m = [squote] then QUOTE_END_search (drop e todo)
                    else DQUOTE_END_search (drop e todo)) of
                None \<Rightarrow> dn1
              | Some m2e \<Rightarrow> remove_loop (drop (e + m2e) todo) dn1)))"
  by pat_completeness auto
termination
proof (relation "measure (\<lambda>(todo, dn). length todo)")
  show "wf (measure (\<lambda>(todo, dn). length todo))" by simp
qed (auto dest!: VOID_START_search_bound dest!: find_at_bound)

definition remove_comments_strings :: "string list \<Rightarrow> string" where
  "remove_comments_strings prg = remove_loop (join [nl] prg) []"

declare remove_loop.simps [simp del]

section \<open>The pragma parser: \<^verbatim>\<open>parse_pragma\<close>\<close>

datatype error = ParseException | ValueError | IndexError | FileNotFoundError

text \<open>
  Character classes. \<open>is_space\<close> is Python's Unicode whitespace (\<^verbatim>\<open>\s\<close> in a \<^verbatim>\<open>str\<close>
  pattern, and what \<^verbatim>\<open>str.rstrip()\<close> removes) on the code points below 256;
  \<open>is_digit\<close> is the class \<^verbatim>\<open>[0-9]\<close>.
\<close>

definition is_space :: "char \<Rightarrow> bool" where
  "is_space c =
     (let n = (of_char c :: nat)
      in (9 \<le> n \<and> n \<le> 13) \<or> (28 \<le> n \<and> n \<le> 32) \<or> n = 133 \<or> n = 160)"

definition is_digit :: "char \<Rightarrow> bool" where
  "is_digit c = (let n = (of_char c :: nat) in 48 \<le> n \<and> n \<le> 57)"

text \<open>
  The pattern \<^verbatim>\<open>\s*[0-9]+\s*\.\s*[0-9]+\s*(\.\s*[0-9]+)?\<close>, matched at the start of the
  text as \<^verbatim>\<open>re.match\<close> does. Every repetition is followed by a character outside its own
  class (or by an optional group), so the greedy choice is the only one that can succeed and
  the matcher needs no backtracking. The result is the matched text and the rest.
\<close>

definition re_dot_digits :: "string \<Rightarrow> (string \<times> string) option" where
  \<comment> \<open>\<^verbatim>\<open>\.\s*[0-9]+\<close>\<close>
  "re_dot_digits s =
     (case s of
        [] \<Rightarrow> None
      | c # s1 \<Rightarrow>
          if c \<noteq> CHR ''.'' then None
          else (let w = takeWhile is_space s1; s2 = dropWhile is_space s1;
                    d = takeWhile is_digit s2
                in if d = [] then None else Some (c # w @ d, dropWhile is_digit s2)))"

definition version_re :: "string \<Rightarrow> (string \<times> string) option" where
  "version_re s =
     (let w0 = takeWhile is_space s; s0 = dropWhile is_space s;
          d1 = takeWhile is_digit s0; s1 = dropWhile is_digit s0
      in if d1 = [] then None
         else (let w1 = takeWhile is_space s1; s2 = dropWhile is_space s1
               in case re_dot_digits s2 of
                    None \<Rightarrow> None
                  | Some (g1, s3) \<Rightarrow>
                      (let w2 = takeWhile is_space s3; s4 = dropWhile is_space s3
                       in case re_dot_digits s4 of
                            None \<Rightarrow> Some (w0 @ d1 @ w1 @ g1 @ w2, s4)
                          | Some (g2, s5) \<Rightarrow> Some (w0 @ d1 @ w1 @ g1 @ w2 @ g2, s5))))"

text \<open>
  The pyparsing expressions that \<^verbatim>\<open>parse_pragma\<close> builds. pyparsing is a library outside
  the repository; its matching rules are taken as the library documents them:
  \<^item> every expression first skips the characters of \<open>whiteChars\<close>, except inside a
    \<^verbatim>\<open>Combine\<close>, whose parts must be adjacent (the \<^verbatim>\<open>Combine\<close> itself still skips);
  \<^item> \<^verbatim>\<open>Word(cs)\<close> is a longest non-empty run of characters of \<open>cs\<close>;
  \<^item> \<^verbatim>\<open>a + b\<close> is sequence, \<^verbatim>\<open>a | b\<close> takes the first alternative that matches,
    \<^verbatim>\<open>Optional\<close> yields no token when its expression fails, \<^verbatim>\<open>Combine\<close> joins the tokens
    of its expression into one;
  \<^item> \<^verbatim>\<open>parseString\<close> expands tabs first and does not require the whole text to match.

  A parse yields the token list and the unread rest; \<open>None\<close> is \<^verbatim>\<open>ParseException\<close>.
\<close>

datatype element =
    Word string
  | Regex "string \<Rightarrow> (string \<times> string) option"
  | And element element
  | MatchFirst element element
  | Optional element
  | Combine element

definition whiteChars :: string where
  "whiteChars = [CHR '' '', nl, tab, cr]"

definition preParse :: "bool \<Rightarrow> string \<Rightarrow> string" where
  "preParse skipWhitespace s =
     (if skipWhitespace then dropWhile (\<lambda>c. c \<in> set whiteChars) s else s)"

fun parse_element :: "bool \<Rightarrow> element \<Rightarrow> string \<Rightarrow> (string list \<times> string) option" where
  "parse_element sk (Word cs) s =
     (let s1 = preParse sk s; w = takeWhile (\<lambda>c. c \<in> set cs) s1
      in if w = [] then None else Some ([w], dropWhile (\<lambda>c. c \<in> set cs) s1))"
| "parse_element sk (Regex re) s =
     (case re (preParse sk s) of None \<Rightarrow> None | Some (tok, rest) \<Rightarrow> Some ([tok], rest))"
| "parse_element sk (And a b) s =
     (case parse_element sk a s of
        None \<Rightarrow> None
      | Some (ts, r) \<Rightarrow>
          (case parse_element sk b r of
             None \<Rightarrow> None
           | Some (us, r') \<Rightarrow> Some (ts @ us, r')))"
| "parse_element sk (MatchFirst a b) s =
     (case parse_element sk a s of None \<Rightarrow> parse_element sk b s | Some x \<Rightarrow> Some x)"
| "parse_element sk (Optional a) s =
     (case parse_element sk a (preParse sk s) of
        None \<Rightarrow> Some ([], preParse sk s)
      | Some x \<Rightarrow> Some x)"
| "parse_element sk (Combine a) s =
     (case parse_element False a (preParse True s) of
        None \<Rightarrow> None
      | Some (ts, r) \<Rightarrow> Some ([concat ts], r))"

text \<open>\<^verbatim>\<open>str.expandtabs()\<close> with the default tab size 8; \<open>col\<close> is the current column.\<close>

fun expandtabs_from :: "nat \<Rightarrow> string \<Rightarrow> string" where
  "expandtabs_from col [] = []"
| "expandtabs_from col (c # cs) =
     (if c = tab then
        replicate (8 - col mod 8) (CHR '' '') @ expandtabs_from (col + (8 - col mod 8)) cs
      else if c = nl \<or> c = cr then c # expandtabs_from 0 cs
      else c # expandtabs_from (Suc col) cs)"

definition parseString :: "element \<Rightarrow> string \<Rightarrow> string list option" where
  "parseString e instring = map_option fst (parse_element True e (expandtabs_from 0 instring))"

definition lt_expr :: element where "lt_expr = Word ''<''"
definition gtr_expr :: element where "gtr_expr = Word ''>''"
definition eq_expr :: element where "eq_expr = Word ''=''"
definition carrot_expr :: element where "carrot_expr = Word ''^''"
definition version_expr :: element where "version_expr = Regex version_re"

definition inequality_expr :: element where
  "inequality_expr =
     Optional (MatchFirst eq_expr
                (MatchFirst (Combine (And gtr_expr (Optional eq_expr)))
                            (Combine (And lt_expr (Optional eq_expr)))))"

definition min_version_expr :: element where
  "min_version_expr = And (Optional (MatchFirst carrot_expr inequality_expr)) version_expr"

definition max_version_expr :: element where
  "max_version_expr = Optional (And inequality_expr version_expr)"

definition pragma_expr :: element where
  "pragma_expr =
     And (And (And (Word ''pragma'') (Word ''solidity'')) min_version_expr)
         (Optional max_version_expr)"

text \<open>The dictionary that \<^verbatim>\<open>parse_pragma\<close> returns.\<close>

record pragma_dict =
  min_carrot :: string
  min_inequality :: string
  min_version :: string
  max_inequality :: "string option"
  max_version :: "string option"

text \<open>\<^verbatim>\<open>result[i]\<close> for \<open>i \<ge> 0\<close>, raising \<^verbatim>\<open>IndexError\<close> out of range.\<close>

definition getitem :: "'a list \<Rightarrow> nat \<Rightarrow> error + 'a" where
  "getitem xs i = (if i < length xs then Inr (xs ! i) else Inl IndexError)"

definition pragma_dict_of :: "string list \<Rightarrow> error + pragma_dict" where
  \<comment> \<open>lines 152 to 161, from the token list \<^verbatim>\<open>result\<close>\<close>
  "pragma_dict_of result =
     (case getitem result 2 of
        Inl e \<Rightarrow> Inl e
      | Inr r2 \<Rightarrow>
          (let min_inequality' = (if r2 \<in> set [''>'', ''<'', ''>='', ''<='', ''=''] then r2 else []);
               min_carrot' = (if r2 = ''^'' then r2 else [])
           in case (if min_carrot' \<noteq> [] \<or> min_inequality' \<noteq> []
                    then getitem result 3 else Inr r2) of
                Inl e \<Rightarrow> Inl e
              | Inr min_version' \<Rightarrow>
                  Inr \<lparr> min_carrot = min_carrot',
                        min_inequality = min_inequality',
                        min_version = min_version',
                        max_inequality = (if length result > 4 then Some (result ! 4) else None),
                        max_version = (if length result > 5 then Some (result ! 5) else None) \<rparr>))"

definition parse_pragma :: "string \<Rightarrow> error + pragma_dict" where
  "parse_pragma solidity_code =
     (case parseString pragma_expr solidity_code of
        None \<Rightarrow> Inl ParseException
      | Some result \<Rightarrow> pragma_dict_of result)"

section \<open>Resolution: \<^verbatim>\<open>extract_version\<close> and \<^verbatim>\<open>extract_binary\<close>\<close>

text \<open>\<^verbatim>\<open>s.replace(c, "")\<close> for a one-character \<open>c\<close>, and \<^verbatim>\<open>s.rstrip()\<close>.\<close>

definition replace_empty :: "char \<Rightarrow> string \<Rightarrow> string" where
  "replace_empty c s = filter (\<lambda>x. x \<noteq> c) s"

definition rstrip :: "string \<Rightarrow> string" where
  "rstrip s = rev (dropWhile is_space (rev s))"

text \<open>How an f-string prints a value that may be \<^verbatim>\<open>None\<close>.\<close>

definition format_opt :: "string option \<Rightarrow> string" where
  "format_opt x = (case x of None \<Rightarrow> ''None'' | Some s \<Rightarrow> s)"

text \<open>
  Lines 228 to 241: the expression handed to \<^verbatim>\<open>semver.SimpleSpec\<close>. The condition
  \<^verbatim>\<open>if max_version\<close> is Python truthiness: neither \<^verbatim>\<open>None\<close> nor the empty string.
\<close>

definition version_spec :: "pragma_dict \<Rightarrow> string" where
  "version_spec pragma_dict =
     (let min_inequality' = min_inequality pragma_dict;
          max_inequality' = max_inequality pragma_dict;
          min_version' = replace_empty tab (replace_empty (CHR '' '') (min_version pragma_dict));
          max_version' = map_option (\<lambda>v. replace_empty tab (replace_empty (CHR '' '') v))
                           (max_version pragma_dict)
      in case max_version' of
           None \<Rightarrow> min_version'
         | Some mv \<Rightarrow>
             if mv = [] then min_version'
             else min_inequality' @ min_version' @ '','' @ format_opt max_inequality' @ mv)"

text \<open>
  The \<^verbatim>\<open>semantic_version\<close> library is outside the repository and is a parameter:
  \<open>SimpleSpec\<close> and \<open>Version\<close> are its two constructors (\<open>None\<close> is the \<^verbatim>\<open>ValueError\<close>
  they raise on text they do not accept), \<open>member_of v c\<close> is \<^verbatim>\<open>v in c\<close> and \<open>str_of\<close> is
  \<^verbatim>\<open>str\<close> on a version. The registry \<^verbatim>\<open>all_versions\<close> comes from \<^verbatim>\<open>solcx\<close>; an entry is
  used through \<^verbatim>\<open>str(version)\<close> only and is represented by that text.
\<close>

record ('spec, 'ver) semver =
  SimpleSpec :: "string \<Rightarrow> 'spec option"
  Version :: "string \<Rightarrow> 'ver option"
  member_of :: "'ver \<Rightarrow> 'spec \<Rightarrow> bool"
  str_of :: "'ver \<Rightarrow> string"

text \<open>The loop of lines 244 to 250; falling off its end returns \<^verbatim>\<open>None\<close>.\<close>

fun resolve :: "('spec, 'ver) semver \<Rightarrow> 'spec \<Rightarrow> string list \<Rightarrow> error + string option" where
  "resolve lib version_constraint [] = Inr None"
| "resolve lib version_constraint (version # rest) =
     (case Version lib version of
        None \<Rightarrow> Inl ValueError
      | Some semver_version \<Rightarrow>
          if member_of lib semver_version version_constraint then
            (if contains ''0.5.17'' (str_of lib semver_version)
             then resolve lib version_constraint rest
             else Inr (Some (str_of lib semver_version)))
          else resolve lib version_constraint rest)"

text \<open>Lines 222 to 226: from the located line to the text given to \<^verbatim>\<open>parse_pragma\<close>.\<close>

definition trim_version_line :: "string \<Rightarrow> error + string" where
  "trim_version_line version_line =
     (if version_line = [] then Inl IndexError
      else (let vl1 = (if last version_line = CHR '';'' then butlast version_line
                       else version_line)
            in Inr (case find_sub ''pragma'' vl1 of
                      None \<Rightarrow> drop (length vl1 - 1) vl1
                    | Some i \<Rightarrow> drop i vl1)))"

definition extract_version ::
  "('spec, 'ver) semver \<Rightarrow> string list \<Rightarrow> string option \<Rightarrow> error + string option" where
  "extract_version lib all_versions file =
     (case file of
        None \<Rightarrow> Inr None
      | Some text \<Rightarrow>
          (let file' = remove_comments_strings (split nl text)
           in case find (contains ''pragma solidity'') (split nl file') of
                None \<Rightarrow> Inr None
              | Some line \<Rightarrow>
                  (case trim_version_line (rstrip line) of
                     Inl e \<Rightarrow> Inl e
                   | Inr version_line \<Rightarrow>
                       (case parse_pragma version_line of
                          Inl e \<Rightarrow> Inl e
                        | Inr pragma_dict \<Rightarrow>
                            (case SimpleSpec lib (version_spec pragma_dict) of
                               None \<Rightarrow> Inl ValueError
                             | Some version_constraint \<Rightarrow>
                                 resolve lib version_constraint all_versions)))))"

text \<open>
  \<^verbatim>\<open>extract_binary\<close>. The file system is a map from paths to contents, the environment a map
  from names to values, and \<open>solc_exists\<close> (which installs a compiler and returns its
  path) a parameter. \<open>or_default\<close> is \<^verbatim>\<open>os.environ.get(name) or default\<close>.
\<close>

definition or_default :: "string option \<Rightarrow> string \<Rightarrow> string" where
  "or_default x d = (case x of None \<Rightarrow> d | Some v \<Rightarrow> if v = [] then d else v)"

definition extract_binary ::
  "('spec, 'ver) semver \<Rightarrow> string list \<Rightarrow> (string \<Rightarrow> string) \<Rightarrow> (string \<rightharpoonup> string) \<Rightarrow>
   (string \<rightharpoonup> string) \<Rightarrow> string \<Rightarrow> error + (string \<times> string option)" where
  "extract_binary lib all_versions solc_exists environ fs file =
     (case fs file of
        None \<Rightarrow> Inl FileNotFoundError
      | Some file_data \<Rightarrow>
          (case extract_version lib all_versions (Some file_data) of
             Inl e \<Rightarrow> Inl e
           | Inr None \<Rightarrow> Inr (or_default (environ ''SOLC'') ''solc'', None)
           | Inr (Some version) \<Rightarrow> Inr (solc_exists version, Some version)))"

section \<open>Notions used to state the properties\<close>

text \<open>
  A registry entry \<open>s\<close> satisfies a constraint when its version is a member of it; the text
  returned for it is \<^verbatim>\<open>str(semver_version)\<close>; it is excluded when that text contains
  \<^verbatim>\<open>0.5.17\<close> (the test of line 247).
\<close>

definition satisfies :: "('spec, 'ver) semver \<Rightarrow> 'spec \<Rightarrow> string \<Rightarrow> bool" where
  "satisfies lib c s = (case Version lib s of None \<Rightarrow> False | Some v \<Rightarrow> member_of lib v c)"

definition candidate_str :: "('spec, 'ver) semver \<Rightarrow> string \<Rightarrow> string" where
  "candidate_str lib s = (case Version lib s of None \<Rightarrow> s | Some v \<Rightarrow> str_of lib v)"

definition excluded :: "('spec, 'ver) semver \<Rightarrow> string \<Rightarrow> bool" where
  "excluded lib s = contains ''0.5.17'' (candidate_str lib s)"

text \<open>The two \<^verbatim>\<open>replace\<close> calls of lines 232 and 235.\<close>

definition strip_blanks :: "string \<Rightarrow> string" where
  "strip_blanks v = replace_empty tab (replace_empty (CHR '' '') v)"

text \<open>
  Concrete inputs on which the theorems are instantiated: a version library in which a
  constraint is a version text and is satisfied by that version only, an environment in
  which \<^verbatim>\<open>SOLC\<close> is set to the empty string, one in which it names a binary, and a file
  system with one source file without a pragma.
\<close>

definition exact_lib :: "(string, string) semver" where
  "exact_lib = \<lparr> SimpleSpec = Some, Version = Some, member_of = (\<lambda>v c. v = c), str_of = id \<rparr>"

definition empty_SOLC_environ :: "string \<rightharpoonup> string" where
  "empty_SOLC_environ = [''SOLC'' \<mapsto> []]"

definition set_SOLC_environ :: "string \<rightharpoonup> string" where
  "set_SOLC_environ = [''SOLC'' \<mapsto> ''/opt/solc'']"

definition one_file_fs :: "string \<rightharpoonup> string" where
  "one_file_fs = [''C.sol'' \<mapsto> ''contract C {}'']"

section \<open>Facts about the string operations\<close>

lemma contains_Cons:
  "contains sub (c # cs) \<longleftrightarrow> prefix sub (c # cs) \<or> contains sub cs"
  by (simp add: contains_def)

lemma split_not_Nil: "split c s \<noteq> []"
  by (induction s) (auto split: list.splits)

text \<open>Joining the pieces of a split gives the text back: line 213 changes nothing.\<close>

lemma join_split: "join [c] (split c s) = s"
proof (induction s)
  case Nil
  show ?case by simp
next
  case (Cons x xs)
  obtain l ls where sp: "split c xs = l # ls"
    using split_not_Nil [of c xs] by (cases "split c xs") auto
  show ?case
  proof (cases "x = c")
    case True
    with sp Cons.IH show ?thesis by simp
  next
    case False
    have "join [c] ((x # l) # ls) = x # join [c] (l # ls)"
      by (cases ls) auto
    with False sp Cons.IH show ?thesis by simp
  qed
qed

lemma VOID_START_search_no_trigger:
  "\<not> contains ''//'' s \<Longrightarrow> \<not> contains ''/*'' s \<Longrightarrow> \<not> contains [squote] s \<Longrightarrow>
   \<not> contains [dquote] s \<Longrightarrow> VOID_START_search s = None"
proof (induction s)
  case Nil
  show ?case by simp
next
  case (Cons c cs)
  from Cons.prems have np: "\<not> prefix ''//'' (c # cs)" "\<not> prefix ''/*'' (c # cs)"
    and nq: "c \<noteq> squote" "c \<noteq> dquote"
    and rest: "\<not> contains ''//'' cs" "\<not> contains ''/*'' cs"
      "\<not> contains [squote] cs" "\<not> contains [dquote] cs"
    by (auto simp only: contains_Cons prefix_code list.inject simp_thms)
  have "VOID_START_search (c # cs) = map_option (\<lambda>(i, m). (Suc i, m)) (VOID_START_search cs)"
    by (simp only: VOID_START_search.simps np nq if_False)
  with Cons.IH [OF rest] show ?case by simp
qed

lemma remove_loop_no_trigger:
  "VOID_START_search todo = None \<Longrightarrow> remove_loop todo dn = dn @ todo"
  by (simp add: remove_loop.simps)

section \<open>The stripper\<close>

text \<open>
  Claim C7. A text with no occurrence of any of the four triggers \<^verbatim>\<open>//\<close>, \<^verbatim>\<open>/*\<close>,
  \<^verbatim>\<open>'\<close> and \<^verbatim>\<open>"\<close> is returned unchanged by the stripper, called as
  \<^verbatim>\<open>extract_version\<close> calls it, on the lines of the text.
\<close>

theorem strip_identity_without_triggers:
  assumes "\<not> contains ''//'' text" and "\<not> contains ''/*'' text"
    and "\<not> contains [squote] text" and "\<not> contains [dquote] text"
  shows "remove_comments_strings (split nl text) = text"
  using VOID_START_search_no_trigger [OF assms]
  by (simp add: remove_comments_strings_def join_split remove_loop_no_trigger)

theorem strip_identity_without_triggers_witness:
  "\<not> contains ''//'' ''uint x = 1/2;'' \<and> \<not> contains ''/*'' ''uint x = 1/2;''
   \<and> \<not> contains [squote] ''uint x = 1/2;'' \<and> \<not> contains [dquote] ''uint x = 1/2;''
   \<and> remove_comments_strings (split nl ''uint x = 1/2;'') = ''uint x = 1/2;''"
proof -
  have h1: "\<not> contains ''//'' ''uint x = 1/2;''" by code_simp
  have h2: "\<not> contains ''/*'' ''uint x = 1/2;''" by code_simp
  have h3: "\<not> contains [squote] ''uint x = 1/2;''" by code_simp
  have h4: "\<not> contains [dquote] ''uint x = 1/2;''" by code_simp
  from strip_identity_without_triggers [OF h1 h2 h3 h4] h1 h2 h3 h4 show ?thesis by blast
qed


text \<open>
  Claim C3, as stated, fails: line 195 appends the replacement space before line 196 looks
  at whether the comment is closed. On \<^verbatim>\<open>a/*b\<close> the opener has no closing \<^verbatim>\<open>*/\<close>, and the
  output is \<^verbatim>\<open>a\<close> followed by a space, not \<^verbatim>\<open>a\<close>.
\<close>

theorem unterminated_block_comment_space_counterexample:
  "contains ''/*'' ''a/*b'' \<and> \<not> contains ''*/'' ''a/*b''
   \<and> remove_comments_strings (split nl ''a/*b'') = ''a ''
   \<and> remove_comments_strings (split nl ''a/*b'') \<noteq> ''a''"
  by code_simp

text \<open>
  Claim C3, amended. Whenever the next trigger in the text still to scan is a block-comment
  opener \<^verbatim>\<open>/*\<close> with no \<^verbatim>\<open>*/\<close> after it, the stripper stops there: the output is what was
  emitted so far, then the text before the opener copied verbatim, then one space; the
  remainder is discarded.
\<close>

theorem unterminated_block_comment:
  assumes "VOID_START_search todo = Some (st, ''/*'')"
    and "find_at ''*/'' todo (st + 2) = None"
  shows "remove_loop todo dn = dn @ take st todo @ '' ''"
  using assms by (simp add: remove_loop.simps [of todo] remove_loop.simps [of "[]"])

theorem unterminated_block_comment_witness:
  "VOID_START_search ''a/*b'' = Some (1, ''/*'') \<and> find_at ''*/'' ''a/*b'' (1 + 2) = None
   \<and> remove_loop ''a/*b'' ''x'' = ''xa ''"
proof -
  have h1: "VOID_START_search ''a/*b'' = Some (1, ''/*'')" by code_simp
  have h2: "find_at ''*/'' ''a/*b'' (1 + 2) = None" by code_simp
  from unterminated_block_comment [OF h1 h2, of "''x''"] h1 h2 show ?thesis by simp
qed

section \<open>The pragma parser\<close>

text \<open>
  Claim C6. Parsing the line \<^verbatim>\<open>pragma solidity >=0.4.21<0.6.0;\<close> gives the minimum
  operator \<^verbatim>\<open>>=\<close>, the minimum version \<^verbatim>\<open>0.4.21\<close>, the maximum operator \<^verbatim>\<open><\<close> and the
  maximum version \<^verbatim>\<open>0.6.0\<close> (and no caret).
\<close>

theorem parse_range_pragma:
  "parse_pragma ''pragma solidity >=0.4.21<0.6.0;'' =
   Inr \<lparr> min_carrot = [], min_inequality = ''>='', min_version = ''0.4.21'',
         max_inequality = Some ''<'', max_version = Some ''0.6.0'' \<rparr>"
  by code_simp

text \<open>
  Claim C5 does not hold of the code. Lines 159 and 160 read the maximum operator and
  version at the fixed positions 4 and 5 of the token list, which is where they are only
  when a prefix operator was parsed; line 154 does account for the missing prefix when it
  picks the minimum version. On \<^verbatim>\<open>pragma solidity 0.4.0 <0.5.0\<close> the tokens are
  \<^verbatim>\<open>pragma\<close>, \<^verbatim>\<open>solidity\<close>, \<^verbatim>\<open>0.4.0\<close>, \<^verbatim>\<open><\<close>, \<^verbatim>\<open>0.5.0\<close>: the maximum operator field
  holds the version \<^verbatim>\<open>0.5.0\<close> and the maximum version field is \<^verbatim>\<open>None\<close>.
\<close>

theorem unpaired_max_operator:
  "parse_pragma ''pragma solidity 0.4.0 <0.5.0'' =
   Inr \<lparr> min_carrot = [], min_inequality = [], min_version = ''0.4.0'',
         max_inequality = Some ''0.5.0'', max_version = None \<rparr>"
  by code_simp

lemma pragma_dict_of_fields:
  assumes "pragma_dict_of result = Inr d"
  shows "min_inequality d \<in> set [[], ''>'', ''<'', ''>='', ''<='', ''='']"
    and "min_carrot d = ''^'' \<longrightarrow> min_inequality d = []"
    and "max_version d \<noteq> None \<longrightarrow> max_inequality d \<noteq> None"
  using assms
  by (auto simp add: pragma_dict_of_def Let_def getitem_def split: sum.splits if_splits)

text \<open>
  Claim C4, as stated, fails: the caret is kept in the field \<open>min_carrot\<close>, and line 238
  formats the field \<open>min_inequality\<close>, which is empty when the prefix is a caret. For
  \<^verbatim>\<open>pragma solidity ^0.4.0 <0.6.0\<close> the expression is \<^verbatim>\<open>0.4.0,<0.6.0\<close>.
\<close>

theorem caret_dropped_counterexample:
  "parse_pragma ''pragma solidity ^0.4.0 <0.6.0'' =
   Inr \<lparr> min_carrot = ''^'', min_inequality = [], min_version = ''0.4.0'',
         max_inequality = Some ''<'', max_version = Some ''0.6.0'' \<rparr>
   \<and> version_spec \<lparr> min_carrot = ''^'', min_inequality = [], min_version = ''0.4.0'',
         max_inequality = Some ''<'', max_version = Some ''0.6.0'' \<rparr> = ''0.4.0,<0.6.0''
   \<and> version_spec \<lparr> min_carrot = ''^'', min_inequality = [], min_version = ''0.4.0'',
         max_inequality = Some ''<'', max_version = Some ''0.6.0'' \<rparr> \<noteq> ''^0.4.0,<0.6.0''"
  by code_simp

text \<open>
  Claim C4, amended. For every parsed pragma in which the maximum version is present
  (not \<^verbatim>\<open>None\<close> and not empty once blanks are removed), the maximum operator is present
  too and the expression is the field \<open>min_inequality\<close>, the minimum version, a comma, the
  maximum operator and the maximum version, versions with blanks removed. The field
  \<open>min_inequality\<close> is one of the five comparison operators or the empty string, and it is
  the empty string when the parsed prefix is a caret.
\<close>

theorem range_expression_format:
  assumes "parse_pragma line = Inr d"
    and "max_version d = Some mv"
    and "strip_blanks mv \<noteq> []"
  shows "(\<exists>max_op. max_inequality d = Some max_op
            \<and> version_spec d =
                min_inequality d @ strip_blanks (min_version d) @ '','' @ max_op @ strip_blanks mv)
         \<and> min_inequality d \<in> set [[], ''>'', ''<'', ''>='', ''<='', ''='']
         \<and> (min_carrot d = ''^'' \<longrightarrow> min_inequality d = [])"
proof -
  from assms(1) obtain result where r: "pragma_dict_of result = Inr d"
    by (auto simp add: parse_pragma_def split: option.splits)
  from pragma_dict_of_fields [OF r] assms(2)
  obtain max_op where m: "max_inequality d = Some max_op" by auto
  have "version_spec d =
          min_inequality d @ strip_blanks (min_version d) @ '','' @ max_op @ strip_blanks mv"
    using m assms(2,3) by (simp add: version_spec_def Let_def strip_blanks_def format_opt_def)
  with m pragma_dict_of_fields(1,2) [OF r] show ?thesis by blast
qed

theorem range_expression_format_witness:
  "parse_pragma ''pragma solidity >=0.4.21 <0.6.0'' =
     Inr \<lparr> min_carrot = [], min_inequality = ''>='', min_version = ''0.4.21'',
           max_inequality = Some ''<'', max_version = Some ''0.6.0'' \<rparr>
   \<and> strip_blanks ''0.6.0'' \<noteq> []
   \<and> version_spec \<lparr> min_carrot = [], min_inequality = ''>='', min_version = ''0.4.21'',
           max_inequality = Some ''<'', max_version = Some ''0.6.0'' \<rparr> = ''>=0.4.21,<0.6.0''"
proof -
  let ?d = "\<lparr> min_carrot = [], min_inequality = ''>='', min_version = ''0.4.21'',
           max_inequality = Some ''<'', max_version = Some ''0.6.0'' \<rparr>"
  have h1: "parse_pragma ''pragma solidity >=0.4.21 <0.6.0'' = Inr ?d" by code_simp
  have h2: "max_version ?d = Some ''0.6.0''" by simp
  have h3: "strip_blanks ''0.6.0'' \<noteq> []" by code_simp
  have e: "strip_blanks ''0.4.21'' = ''0.4.21''" "strip_blanks ''0.6.0'' = ''0.6.0''"
    by code_simp+
  from range_expression_format [OF h1 h2 h3]
  have "version_spec ?d = ''>=0.4.21,<0.6.0''" by (simp add: e)
  with h1 h3 show ?thesis by blast
qed

section \<open>The resolver\<close>

text \<open>
  Claim C1. On a registry of valid version texts, the loop walks the registry in order and
  returns the text of the first entry that satisfies the constraint and is not excluded;
  when no entry does, it returns \<^verbatim>\<open>None\<close>.
\<close>

theorem resolve_first_satisfying:
  assumes "\<forall>s \<in> set registry. Version lib s \<noteq> None"
  shows "resolve lib c registry =
         Inr (map_option (candidate_str lib)
                (find (\<lambda>s. satisfies lib c s \<and> \<not> excluded lib s) registry))"
  using assms
proof (induction registry)
  case Nil
  show ?case by simp
next
  case (Cons s rest)
  then obtain v where v: "Version lib s = Some v" by auto
  from Cons have IH: "resolve lib c rest =
      Inr (map_option (candidate_str lib) (find (\<lambda>s. satisfies lib c s \<and> \<not> excluded lib s) rest))"
    by simp
  have s1: "satisfies lib c s = member_of lib v c" by (simp add: satisfies_def v)
  have s2: "candidate_str lib s = str_of lib v" by (simp add: candidate_str_def v)
  show ?case
    by (simp add: v IH s1 s2 excluded_def)
qed

theorem resolve_first_satisfying_witness:
  "list_all (\<lambda>s. Version exact_lib s \<noteq> None) [''0.7.6'', ''0.5.17'', ''0.8.0'', ''0.8.1'']
   \<and> resolve exact_lib ''0.8.0'' [''0.7.6'', ''0.5.17'', ''0.8.0'', ''0.8.1''] = Inr (Some ''0.8.0'')
   \<and> resolve exact_lib ''0.6.0'' [''0.7.6'', ''0.5.17'', ''0.8.0'', ''0.8.1''] = Inr None"
proof -
  have h: "\<forall>s \<in> set [''0.7.6'', ''0.5.17'', ''0.8.0'', ''0.8.1'']. Version exact_lib s \<noteq> None"
    by (simp add: exact_lib_def)
  have "resolve exact_lib ''0.8.0'' [''0.7.6'', ''0.5.17'', ''0.8.0'', ''0.8.1''] =
        Inr (map_option (candidate_str exact_lib)
               (find (\<lambda>s. satisfies exact_lib ''0.8.0'' s \<and> \<not> excluded exact_lib s)
                  [''0.7.6'', ''0.5.17'', ''0.8.0'', ''0.8.1'']))"
    by (rule resolve_first_satisfying [OF h])
  also have "\<dots> = Inr (Some ''0.8.0'')" by code_simp
  finally have a: "resolve exact_lib ''0.8.0'' [''0.7.6'', ''0.5.17'', ''0.8.0'', ''0.8.1''] =
        Inr (Some ''0.8.0'')" .
  have "resolve exact_lib ''0.6.0'' [''0.7.6'', ''0.5.17'', ''0.8.0'', ''0.8.1''] =
        Inr (map_option (candidate_str exact_lib)
               (find (\<lambda>s. satisfies exact_lib ''0.6.0'' s \<and> \<not> excluded exact_lib s)
                  [''0.7.6'', ''0.5.17'', ''0.8.0'', ''0.8.1'']))"
    by (rule resolve_first_satisfying [OF h])
  also have "\<dots> = Inr None" by code_simp
  finally have b: "resolve exact_lib ''0.6.0'' [''0.7.6'', ''0.5.17'', ''0.8.0'', ''0.8.1''] = Inr None" .
  from h have h': "list_all (\<lambda>s. Version exact_lib s \<noteq> None) [''0.7.6'', ''0.5.17'', ''0.8.0'', ''0.8.1'']"
    by (simp only: list_all_iff)
  from h' a b show ?thesis by blast
qed

lemma resolve_not_excluded:
  "resolve lib c registry = Inr (Some s) \<Longrightarrow> \<not> contains ''0.5.17'' s"
  by (induction registry) (auto split: option.splits if_splits)

lemma contains_0517: "contains ''0.5.17'' ''0.5.17''"
  by code_simp

lemma extract_version_cases:
  "extract_version lib all_versions file = Inr (Some s) \<Longrightarrow>
   \<exists>c. resolve lib c all_versions = Inr (Some s)"
  by (auto simp add: extract_version_def Let_def split: option.splits sum.splits)

text \<open>
  Claim C2. Neither the loop nor \<^verbatim>\<open>extract_version\<close> returns \<^verbatim>\<open>0.5.17\<close>, whatever the
  registry, the constraint and the library; and a candidate whose text contains
  \<^verbatim>\<open>0.5.17\<close> is skipped, whether it satisfies the constraint or not: the result is that
  of the rest of the registry.
\<close>

theorem never_returns_0_5_17:
  "resolve lib c registry \<noteq> Inr (Some ''0.5.17'')
   \<and> extract_version lib registry file \<noteq> Inr (Some ''0.5.17'')
   \<and> (Version lib version = Some v \<longrightarrow> contains ''0.5.17'' (str_of lib v) \<longrightarrow>
        resolve lib c (version # registry) = resolve lib c registry)"
proof (intro conjI impI)
  show "resolve lib c registry \<noteq> Inr (Some ''0.5.17'')"
    using resolve_not_excluded [of lib c registry "''0.5.17''"] contains_0517 by blast
  show "extract_version lib registry file \<noteq> Inr (Some ''0.5.17'')"
    using extract_version_cases [of lib registry "file" "''0.5.17''"]
      resolve_not_excluded [of lib _ registry "''0.5.17''"] contains_0517 by blast
  show "resolve lib c (version # registry) = resolve lib c registry"
    if "Version lib version = Some v" "contains ''0.5.17'' (str_of lib v)"
    using that by simp
qed

theorem never_returns_0_5_17_witness:
  "Version exact_lib ''0.5.17'' = Some ''0.5.17'' \<and> contains ''0.5.17'' (str_of exact_lib ''0.5.17'')
   \<and> member_of exact_lib ''0.5.17'' ''0.5.17''
   \<and> resolve exact_lib ''0.5.17'' [''0.5.17'', ''0.5.16''] = resolve exact_lib ''0.5.17'' [''0.5.16'']
   \<and> resolve exact_lib ''0.5.17'' [''0.5.17'', ''0.5.16''] = Inr None"
proof -
  have h1: "Version exact_lib ''0.5.17'' = Some ''0.5.17''" by (simp add: exact_lib_def)
  have h2: "contains ''0.5.17'' (str_of exact_lib ''0.5.17'')" by code_simp
  have h3: "member_of exact_lib ''0.5.17'' ''0.5.17''" by (simp add: exact_lib_def)
  from never_returns_0_5_17
    [of exact_lib "''0.5.17''" "[''0.5.16'']" None "''0.5.17''" "''0.5.17''"] h1 h2
  have a: "resolve exact_lib ''0.5.17'' [''0.5.17'', ''0.5.16''] =
           resolve exact_lib ''0.5.17'' [''0.5.16'']"
    by blast
  have b: "resolve exact_lib ''0.5.17'' [''0.5.16''] = Inr None" by code_simp
  from h1 h2 h3 a b show ?thesis by simp
qed

section \<open>The entry points\<close>

text \<open>
  Claim C10. Called with \<^verbatim>\<open>None\<close>, \<^verbatim>\<open>extract_version\<close> returns \<^verbatim>\<open>None\<close>, whatever the
  library and the registry: nothing is stripped, parsed or resolved.
\<close>

theorem extract_version_of_None: "extract_version lib all_versions None = Inr None"
  by (simp add: extract_version_def)

text \<open>
  Claim C9, as stated, fails on the value returned for the binary: line 261 is
  \<^verbatim>\<open>os.environ.get("SOLC") or "solc"\<close>, so a \<^verbatim>\<open>SOLC\<close> that is set to the empty string
  gives \<^verbatim>\<open>solc\<close>, not the value of the variable.
\<close>

theorem empty_SOLC_counterexample:
  "find (contains ''pragma solidity'')
     (split nl (remove_comments_strings (split nl ''contract C {}''))) = None
   \<and> one_file_fs ''C.sol'' = Some ''contract C {}''
   \<and> empty_SOLC_environ ''SOLC'' = Some []
   \<and> extract_binary exact_lib [] id empty_SOLC_environ one_file_fs ''C.sol'' = Inr (''solc'', None)
   \<and> extract_binary exact_lib [] id empty_SOLC_environ one_file_fs ''C.sol'' \<noteq> Inr ([], None)"
  by code_simp

text \<open>
  Claim C9, amended. When no line of the stripped text contains \<^verbatim>\<open>pragma solidity\<close>,
  \<^verbatim>\<open>extract_version\<close> returns \<^verbatim>\<open>None\<close> whatever the library and the registry (the parser
  and the resolver have no part in the result), and \<^verbatim>\<open>extract_binary\<close> on a file with
  that text returns the value of \<^verbatim>\<open>SOLC\<close> if it is set and not empty, else \<^verbatim>\<open>solc\<close>,
  paired with \<^verbatim>\<open>None\<close>.
\<close>

theorem no_pragma_short_circuit:
  assumes "\<forall>line \<in> set (split nl (remove_comments_strings (split nl text))).
             \<not> contains ''pragma solidity'' line"
  shows "extract_version lib all_versions (Some text) = Inr None
         \<and> (fs file = Some text \<longrightarrow>
              extract_binary lib all_versions solc_exists environ fs file =
              Inr (case environ ''SOLC'' of
                     None \<Rightarrow> ''solc''
                   | Some v \<Rightarrow> if v = [] then ''solc'' else v, None))"
proof -
  from assms have "find (contains ''pragma solidity'')
      (split nl (remove_comments_strings (split nl text))) = None"
    by (simp add: find_None_iff)
  then have ev: "extract_version lib all_versions (Some text) = Inr None"
    by (simp add: extract_version_def)
  then show ?thesis
    by (simp add: extract_binary_def or_default_def)
qed

theorem no_pragma_short_circuit_witness:
  "find (contains ''pragma solidity'')
     (split nl (remove_comments_strings (split nl ''contract C {}''))) = None
   \<and> one_file_fs ''C.sol'' = Some ''contract C {}''
   \<and> extract_version exact_lib [''0.8.0''] (Some ''contract C {}'') = Inr None
   \<and> extract_binary exact_lib [''0.8.0''] id set_SOLC_environ one_file_fs ''C.sol'' =
       Inr (''/opt/solc'', None)
   \<and> extract_binary exact_lib [''0.8.0''] id Map.empty one_file_fs ''C.sol'' =
       Inr (''solc'', None)"
proof -
  have h: "\<forall>line \<in> set (split nl (remove_comments_strings (split nl ''contract C {}''))).
      \<not> contains ''pragma solidity'' line" by code_simp
  have f: "one_file_fs ''C.sol'' = Some ''contract C {}''" by (simp add: one_file_fs_def)
  have e1: "set_SOLC_environ ''SOLC'' = Some ''/opt/solc''" by (simp add: set_SOLC_environ_def)
  from no_pragma_short_circuit [OF h, of exact_lib "[''0.8.0'']" one_file_fs "''C.sol''" id set_SOLC_environ] f e1
  have a: "extract_version exact_lib [''0.8.0''] (Some ''contract C {}'') = Inr None"
    and b: "extract_binary exact_lib [''0.8.0''] id set_SOLC_environ one_file_fs ''C.sol'' =
       Inr (''/opt/solc'', None)" by simp_all
  from no_pragma_short_circuit [OF h, of exact_lib "[''0.8.0'']" one_file_fs "''C.sol''" id Map.empty] f
  have c: "extract_binary exact_lib [''0.8.0''] id Map.empty one_file_fs ''C.sol'' =
       Inr (''solc'', None)" by simp
  from h have h': "find (contains ''pragma solidity'')
     (split nl (remove_comments_strings (split nl ''contract C {}''))) = None"
    by (simp only: find_None_iff) blast
  from h' f a b c show ?thesis by blast
qed

end
